theory Spec2Isabelle
  imports Complex_Main
begin

section \<open>Numbers and exceptions\<close>

text \<open>
  The application is a Python script (\<^verbatim>\<open>app.py\<close>).  Python numbers, \<^verbatim>\<open>int\<close> and
  \<^verbatim>\<open>float\<close> alike, are embedded as exact reals: the true division \<^verbatim>\<open>/\<close> of the
  source is real division, and the rounding of binary floating point is not part of the
  model.  A division whose divisor is zero raises \<^verbatim>\<open>ZeroDivisionError\<close> in Python; HOL's
  \<open>x / 0 = 0\<close> is never used for it.

  An exception is identified by the name of its class.  The script defines no exception
  class and contains no \<^verbatim>\<open>raise\<close>, \<^verbatim>\<open>try\<close> or \<^verbatim>\<open>except\<close>: every exception comes from the
  interpreter or from a library call and propagates to the top level.
\<close>

datatype error = Raised string

abbreviation ZeroDivisionError :: error where
  "ZeroDivisionError \<equiv> Raised ''ZeroDivisionError''"

abbreviation NameError :: error where
  "NameError \<equiv> Raised ''NameError''"


section \<open>The radar plot: \<^verbatim>\<open>create_radar_plot_with_threshold\<close>\<close>

text \<open>
  Line 53 of the source:
  \<^verbatim>\<open>normalized_values = [(value - min_val) / (max_val - min_val)
      for value, min_val, max_val in zip(values, min_values, max_values)]\<close>
  One element of the comprehension is \<open>normalize1\<close>; the comprehension over the three
  zipped lists is \<open>normalized_values\<close>.  \<^verbatim>\<open>zip\<close> stops at the shortest of its arguments,
  and the first element whose divisor is zero aborts the whole comprehension.
\<close>

definition normalize1 :: "real \<Rightarrow> real \<Rightarrow> real \<Rightarrow> error + real" where
  "normalize1 val min_val max_val =
     (if max_val - min_val = 0 then Inl ZeroDivisionError
      else Inr ((val - min_val) / (max_val - min_val)))"

fun normalized_values :: "real list \<Rightarrow> real list \<Rightarrow> real list \<Rightarrow> error + real list" where
  "normalized_values (v # vs) (lo # los) (hi # his) =
     (case normalize1 v lo hi of
        Inl e \<Rightarrow> Inl e
      | Inr x \<Rightarrow>
          (case normalized_values vs los his of
             Inl e \<Rightarrow> Inl e
           | Inr xs \<Rightarrow> Inr (x # xs)))"
| "normalized_values _ _ _ = Inr []"

text \<open>
  \<^verbatim>\<open>xs += xs[:1]\<close> closes a polygon by repeating its first vertex; on the empty list
  the slice is empty and nothing is appended.
\<close>

definition close_loop :: "'a list \<Rightarrow> 'a list" where
  "close_loop xs = xs @ take 1 xs"

text \<open>
  The bounds that the radar tab passes for every drug (lines 189 and 190).
\<close>

definition min_values :: "real list" where
  "min_values = [0, 100, 0, 0, 0]"

definition max_values :: "real list" where
  "max_values = [5, 500, 1, 5, 10]"

text \<open>
  The function receives the descriptor dictionary, whose insertion order Python keeps, as
  an association list, and the two lists of bounds.  What it computes before handing over
  to the plotting library is collected in \<open>radar_plot\<close>:
  \<^item> \<open>properties_labels\<close>: the tick labels \<^verbatim>\<open>f"{prop} ({max_val})"\<close>, kept as the pair of
    the name and the bound (line 50);
  \<^item> \<open>polygon\<close>: the normalised values, closed (lines 53 and 54);
  \<^item> \<open>angles\<close>: \<^verbatim>\<open>np.linspace(0, 2 * np.pi, K, endpoint=False)\<close> for the \<open>K\<close> names of
    the dictionary, closed (lines 57 and 58);
  \<^item> \<open>threshold_values\<close>: \<open>K\<close> ones, closed (lines 61 and 62);
  \<^item> \<open>value_texts\<close>: for each vertex the angle, the radius \<open>0.85\<close> times the normalised
    value, and the raw value that is printed there (lines 76 to 78).
  The title, the colour and the styling of the figure are presentation and are left out.
  The function contains no check of its arguments: the only statement that can raise
  before the plotting calls is the division of line 53.  The first plotting call,
  \<^verbatim>\<open>ax.fill(angles, normalized_values)\<close> of line 65, is given the angles and the polygon as
  coordinates; the plotting library rejects coordinate lists of different lengths with a
  \<^verbatim>\<open>ValueError\<close>.  The later calls receive lists whose lengths agree whenever these two do.
\<close>

record radar_plot =
  properties_labels :: "(string \<times> real) list"
  angles :: "real list"
  polygon :: "real list"
  threshold_values :: "real list"
  value_texts :: "(real \<times> real \<times> real) list"

definition linspace_open :: "nat \<Rightarrow> real list" where
  "linspace_open k = map (\<lambda>i. real i * (2 * pi / real k)) [0..<k]"

definition create_radar_plot_with_threshold ::
  "(string \<times> real) list \<Rightarrow> real list \<Rightarrow> real list \<Rightarrow> error + radar_plot" where
  "create_radar_plot_with_threshold lipinski_properties mins maxs =
     (let properties = map fst lipinski_properties;
          vals = map snd lipinski_properties;
          labels = zip properties maxs
      in case normalized_values vals mins maxs of
           Inl e \<Rightarrow> Inl e
         | Inr ns \<Rightarrow>
             (let closed = close_loop ns;
                  angs = close_loop (linspace_open (length properties));
                  ring = close_loop (replicate (length properties) 1)
              in if length angs \<noteq> length closed then Inl (Raised ''ValueError'')
                 else Inr \<lparr> properties_labels = labels,
                            angles = angs,
                            polygon = closed,
                            threshold_values = ring,
                            value_texts =
                              map (\<lambda>(a, v, n). (a, n * 0.85, v))
                                (zip (butlast angs) (zip vals (butlast closed))) \<rparr>))"

text \<open>
  The number of vertices that the normalisation produces: \<^verbatim>\<open>zip\<close> stops at the shortest
  of the three lists.
\<close>

definition paired :: "'a list \<Rightarrow> 'b list \<Rightarrow> 'c list \<Rightarrow> nat" where
  "paired vs los his = min (length vs) (min (length los) (length his))"


section \<open>The descriptor functions\<close>

text \<open>
  The molecule parser, the descriptors and the depiction are calls into the
  cheminformatics library.  They are parameters of the model: a record of functions, each
  of which either returns or raises.  A molecule object is a value of the type \<open>'mol\<close>;
  what the parser hands back is an optional molecule, since a Python name may also hold
  \<^verbatim>\<open>None\<close>, and the script passes the parser's result on as it is.  The two counts that the
  library returns as integers are embedded in the reals like every other number.
\<close>

record ('mol, 'img) rdkit =
  MolFromSmiles :: "string \<Rightarrow> error + 'mol option"
  MolWt :: "'mol option \<Rightarrow> error + real"
  NumHDonors :: "'mol option \<Rightarrow> error + real"
  NumHAcceptors :: "'mol option \<Rightarrow> error + real"
  MolLogP :: "'mol option \<Rightarrow> error + real"
  QED_qed :: "'mol option \<Rightarrow> error + real"
  MolToImage :: "'mol option \<Rightarrow> error + 'img"
  CalcMolFormula :: "'mol option \<Rightarrow> error + string"

text \<open>
  \<^verbatim>\<open>calculate_lipinski_properties\<close> (lines 15 to 43): the five library calls in the order
  of the source, the rule-of-five test \<open>is_pass\<close>, which is computed and then dropped, and
  the dictionary that is returned, whose insertion order is the order of the list.
\<close>

definition calculate_lipinski_properties ::
  "('mol, 'img) rdkit \<Rightarrow> string \<Rightarrow> error + (string \<times> real) list" where
  "calculate_lipinski_properties lib smiles =
     (case MolFromSmiles lib smiles of Inl e \<Rightarrow> Inl e | Inr mol \<Rightarrow>
      case MolWt lib mol of Inl e \<Rightarrow> Inl e | Inr molecular_weight \<Rightarrow>
      case NumHDonors lib mol of Inl e \<Rightarrow> Inl e | Inr num_hydrogen_bond_donors \<Rightarrow>
      case NumHAcceptors lib mol of Inl e \<Rightarrow> Inl e | Inr num_hydrogen_bond_acceptors \<Rightarrow>
      case MolLogP lib mol of Inl e \<Rightarrow> Inl e | Inr logp \<Rightarrow>
      case QED_qed lib mol of Inl e \<Rightarrow> Inl e | Inr qed_value \<Rightarrow>
        (let is_pass = (molecular_weight \<le> 500 \<and> num_hydrogen_bond_donors \<le> 5 \<and>
                        num_hydrogen_bond_acceptors \<le> 10 \<and> logp \<le> 5)
         in Inr [(''HBD'', num_hydrogen_bond_donors),
                 (''MW'', molecular_weight),
                 (''QED'', qed_value),
                 (''LogP'', logp),
                 (''HBA'', num_hydrogen_bond_acceptors)]))"

text \<open>\<^verbatim>\<open>chemical_struture_2d\<close> (lines 90 to 93).\<close>

definition chemical_struture_2d :: "('mol, 'img) rdkit \<Rightarrow> string \<Rightarrow> error + 'img" where
  "chemical_struture_2d lib smiles =
     (case MolFromSmiles lib smiles of Inl e \<Rightarrow> Inl e | Inr m \<Rightarrow> MolToImage lib m)"

text \<open>
  \<^verbatim>\<open>smiles_to_molecular_formula\<close> (lines 95 to 102).  The translation of the ten digits
  to their Unicode subscripts is the parameter \<open>SUB\<close>.
\<close>

definition smiles_to_molecular_formula ::
  "('mol, 'img) rdkit \<Rightarrow> (string \<Rightarrow> string) \<Rightarrow> string \<Rightarrow> error + string" where
  "smiles_to_molecular_formula lib SUB smiles =
     (case MolFromSmiles lib smiles of Inl e \<Rightarrow> Inl e | Inr mol \<Rightarrow>
      case CalcMolFormula lib mol of Inl e \<Rightarrow> Inl e | Inr formula_molecular \<Rightarrow>
        Inr (SUB formula_molecular))"


section \<open>The dataset\<close>

text \<open>
  The table \<^verbatim>\<open>data/medicamentos.xlsx\<close> is read once (line 136).  A row has the text columns
  that the script names and a number for each numeric column; the data frame keeps the
  names of its numeric columns, also when a filter leaves it without rows.  Every numeric
  cell is taken to hold a number (no missing value).
\<close>

record drug =
  farmaco :: string
  canonical_smiles :: string
  classe_farmacologica :: string
  via_administracao :: string
  periodo :: string
  numeric :: "string \<Rightarrow> real"

record dataframe =
  numeric_columns :: "string list"
  rows :: "drug list"

text \<open>\<^verbatim>\<open>dataframe[dataframe[col] == x]\<close>: the rows whose text column equals \<open>x\<close>.\<close>

definition where_eq :: "(drug \<Rightarrow> string) \<Rightarrow> string \<Rightarrow> dataframe \<Rightarrow> dataframe" where
  "where_eq col x df = df\<lparr>rows := filter (\<lambda>r. col r = x) (rows df)\<rparr>"

text \<open>\<^verbatim>\<open>.iloc[0]\<close> raises \<^verbatim>\<open>IndexError\<close> on an empty selection.\<close>

definition iloc0 :: "'a list \<Rightarrow> error + 'a" where
  "iloc0 xs = (case xs of [] \<Rightarrow> Inl (Raised ''IndexError'') | x # _ \<Rightarrow> Inr x)"


section \<open>The radar tab\<close>

text \<open>
  Lines 177 to 202: the selected drug's structure is drawn, its formula and descriptors
  are computed and the radar plot is built with the fixed bounds.  No call is guarded:
  the first exception ends the run of the script.
\<close>

record ('img) radar_tab =
  polar_plot :: radar_plot
  estrutura_2d :: 'img
  classe_medicamento :: string
  formula_molecular :: string
  ro5_props :: "(string \<times> real) list"

definition tab4 ::
  "('mol, 'img) rdkit \<Rightarrow> (string \<Rightarrow> string) \<Rightarrow> dataframe \<Rightarrow> string \<Rightarrow> error + 'img radar_tab" where
  "tab4 lib SUB df farmaco_selecionado =
     (let selected = rows (where_eq farmaco farmaco_selecionado df) in
      case iloc0 (map canonical_smiles selected) of Inl e \<Rightarrow> Inl e | Inr smiles_selecionado \<Rightarrow>
      case iloc0 (map classe_farmacologica selected) of Inl e \<Rightarrow> Inl e | Inr classe \<Rightarrow>
      case chemical_struture_2d lib smiles_selecionado of Inl e \<Rightarrow> Inl e | Inr img \<Rightarrow>
      case smiles_to_molecular_formula lib SUB smiles_selecionado of Inl e \<Rightarrow> Inl e | Inr formula \<Rightarrow>
      case calculate_lipinski_properties lib smiles_selecionado of Inl e \<Rightarrow> Inl e | Inr props \<Rightarrow>
      case create_radar_plot_with_threshold props min_values max_values of
        Inl e \<Rightarrow> Inl e
      | Inr plot \<Rightarrow>
          Inr \<lparr> polar_plot = plot, estrutura_2d = img, classe_medicamento = classe,
                formula_molecular = formula, ro5_props = props \<rparr>)"

text \<open>
  A stand-in for the library at a string it cannot parse: the parser returns \<^verbatim>\<open>None\<close>, the
  descriptor functions reject \<^verbatim>\<open>None\<close> with an \<^verbatim>\<open>ArgumentError\<close> and the depiction rejects
  it with a \<^verbatim>\<open>ValueError\<close>.  A string that is accepted stands for its own molecule, with
  fixed descriptor values.
\<close>

definition rdkit_standin :: "(string, string) rdkit" where
  "rdkit_standin =
     \<lparr> MolFromSmiles = (\<lambda>s. if s = ''C('' then Inr None else Inr (Some s)),
       MolWt = (\<lambda>m. case m of None \<Rightarrow> Inl (Raised ''ArgumentError'') | Some _ \<Rightarrow> Inr 300),
       NumHDonors = (\<lambda>m. case m of None \<Rightarrow> Inl (Raised ''ArgumentError'') | Some _ \<Rightarrow> Inr 2),
       NumHAcceptors = (\<lambda>m. case m of None \<Rightarrow> Inl (Raised ''ArgumentError'') | Some _ \<Rightarrow> Inr 4),
       MolLogP = (\<lambda>m. case m of None \<Rightarrow> Inl (Raised ''ArgumentError'') | Some _ \<Rightarrow> Inr 3),
       QED_qed = (\<lambda>m. case m of None \<Rightarrow> Inl (Raised ''ArgumentError'') | Some _ \<Rightarrow> Inr 0.8),
       MolToImage = (\<lambda>m. case m of None \<Rightarrow> Inl (Raised ''ValueError'') | Some s \<Rightarrow> Inr s),
       CalcMolFormula = (\<lambda>m. case m of None \<Rightarrow> Inl (Raised ''ArgumentError'') | Some s \<Rightarrow> Inr s) \<rparr>"


section \<open>The statistics tab\<close>

text \<open>
  The statistics table has one column per numeric column of the data frame.  A row of it
  is labelled by a name or, for a percentile, by its fraction; a statistic that is
  undefined is \<^verbatim>\<open>NaN\<close>, here \<open>None\<close>.
\<close>

datatype label = Name string | Pct real

type_synonym stats_table = "(string \<times> (label \<times> real option) list) list"

text \<open>
  Modelled from the spec: the statistics routine, \<^verbatim>\<open>DataFrame.describe\<close> of the data-frame
  library, is called by the script (lines 210 to 216) and is not part of its source.  For
  each numeric column it reports the count, the mean, the standard deviation and the
  percentiles that the caller asks for; the library adds the minimum and the maximum.  The
  mean and the percentiles of no value and the standard deviation of fewer than two values
  are undefined.  The standard deviation is the one of a sample (divisor \<open>n - 1\<close>), and a
  percentile is interpolated linearly between the two neighbouring order statistics, which
  is what makes the 50th percentile of 200, 300, 400, 500 equal to 350.  The five
  definitions that follow are the statistics of one column.
\<close>

definition series_mean :: "real list \<Rightarrow> real option" where
  "series_mean xs = (if xs = [] then None else Some (sum_list xs / real (length xs)))"

definition series_std :: "real list \<Rightarrow> real option" where
  "series_std xs =
     (if length xs < 2 then None
      else Some (sqrt (sum_list (map (\<lambda>x. (x - sum_list xs / real (length xs))\<^sup>2) xs)
                       / real (length xs - 1))))"

definition series_min :: "real list \<Rightarrow> real option" where
  "series_min xs = (if xs = [] then None else Some (hd (sort xs)))"

definition series_max :: "real list \<Rightarrow> real option" where
  "series_max xs = (if xs = [] then None else Some (last (sort xs)))"

definition series_quantile :: "real list \<Rightarrow> real \<Rightarrow> real option" where
  "series_quantile xs q =
     (if xs = [] then None
      else let s = sort xs;
               h = q * real (length xs - 1);
               lo = nat \<lfloor>h\<rfloor>;
               hi = min (lo + 1) (length xs - 1)
           in Some (s ! lo + (h - real lo) * (s ! hi - s ! lo)))"

text \<open>
  Modelled from the spec: the rows that the library's routine reports for one column, in
  its order.
\<close>

definition describe_1d :: "real list \<Rightarrow> real list \<Rightarrow> (label \<times> real option) list" where
  "describe_1d xs percentiles =
     [(Name ''count'', Some (real (length xs))),
      (Name ''mean'', series_mean xs),
      (Name ''std'', series_std xs),
      (Name ''min'', series_min xs)]
     @ map (\<lambda>q. (Pct q, series_quantile xs q)) percentiles
     @ [(Name ''max'', series_max xs)]"

text \<open>
  Modelled from the spec: the library's routine on a data frame, column by column.
\<close>

definition describe_frame :: "dataframe \<Rightarrow> real list \<Rightarrow> stats_table" where
  "describe_frame df percentiles =
     map (\<lambda>c. (c, describe_1d (map (\<lambda>r. numeric r c) (rows df)) percentiles))
       (numeric_columns df)"

text \<open>
  \<^verbatim>\<open>rename(index={...})\<close> replaces the row labels that are keys of the dictionary and
  leaves the others.
\<close>

definition rename_label :: "(string \<times> string) list \<Rightarrow> label \<Rightarrow> label" where
  "rename_label m l =
     (case l of
        Name n \<Rightarrow> (case map_of m n of Some n' \<Rightarrow> Name n' | None \<Rightarrow> Name n)
      | Pct q \<Rightarrow> Pct q)"

definition rename_index :: "(string \<times> string) list \<Rightarrow> stats_table \<Rightarrow> stats_table" where
  "rename_index m tbl = map (\<lambda>(c, col). (c, map (\<lambda>(l, v). (rename_label m l, v)) col)) tbl"

text \<open>
  Two strings of the script are not ASCII: the option of the radio button for the topical
  route and the Portuguese word for the mean.  They are written here by their UTF-8
  bytes.
\<close>

definition Topica :: string where
  "Topica = ''T'' @ [CHR 0xC3, CHR 0xB3] @ ''pica''"

definition media :: string where
  "media = ''m'' @ [CHR 0xC3, CHR 0xA9] @ ''dia''"

text \<open>
  Lines 208 to 223.  \<open>via_admin\<close> is the option of the radio button.  Each branch describes
  the frame, whole or filtered by the route, with the percentiles
  \<^verbatim>\<open>[.25, .5, .75, .9]\<close>; a value that matches no branch leaves \<^verbatim>\<open>df_estatistico\<close> unbound,
  and line 219 then raises \<^verbatim>\<open>NameError\<close>.
\<close>

definition df_estatistico :: "dataframe \<Rightarrow> string \<Rightarrow> error + stats_table" where
  "df_estatistico df via_admin =
     (let renamed = rename_index [(''count'', ''contagem''), (''mean'', media), (''std'', ''dp'')] in
      if via_admin = ''Todas'' then
        Inr (renamed (describe_frame df [0.25, 0.5, 0.75, 0.9]))
      else if via_admin = ''Oral'' then
        Inr (renamed (describe_frame (where_eq via_administracao ''oral'' df) [0.25, 0.5, 0.75, 0.9]))
      else if via_admin = ''Parenteral'' then
        Inr (renamed (describe_frame (where_eq via_administracao ''parenteral'' df) [0.25, 0.5, 0.75, 0.9]))
      else if via_admin = Topica then
        Inr (renamed (describe_frame (where_eq via_administracao ''topical'' df) [0.25, 0.5, 0.75, 0.9]))
      else Inl NameError)"

text \<open>The rows that a selection of the radio button keeps.\<close>

definition selected_rows :: "dataframe \<Rightarrow> string \<Rightarrow> drug list" where
  "selected_rows df via_admin =
     (if via_admin = ''Todas'' then rows df
      else if via_admin = ''Oral'' then rows (where_eq via_administracao ''oral'' df)
      else if via_admin = ''Parenteral'' then rows (where_eq via_administracao ''parenteral'' df)
      else rows (where_eq via_administracao ''topical'' df))"

text \<open>
  The rows of the table for one column after the renaming, for the percentiles of the
  script.
\<close>

definition stats_of :: "real list \<Rightarrow> (label \<times> real option) list" where
  "stats_of xs =
     [(Name ''contagem'', Some (real (length xs))),
      (Name media, series_mean xs),
      (Name ''dp'', series_std xs),
      (Name ''min'', series_min xs),
      (Pct 0.25, series_quantile xs 0.25),
      (Pct 0.5, series_quantile xs 0.5),
      (Pct 0.75, series_quantile xs 0.75),
      (Pct 0.9, series_quantile xs 0.9),
      (Name ''max'', series_max xs)]"



section \<open>The period tab\<close>

text \<open>
  Lines 225 to 260.  The tab does nothing until a descriptor is selected
  (\<^verbatim>\<open>if prop_quimica:\<close>, false for \<^verbatim>\<open>None\<close> and for the empty string).  Then it draws the
  box plot of the descriptor by period (line 238), runs the pairwise Mann-Whitney
  comparison with Holm's adjustment on the whole data frame (line 256) and hands the
  matrix that the comparison returned to the heat map (line 259).  The three are calls
  into the plotting and statistics libraries and are parameters of the model, each of
  which either returns or raises; no call is guarded, so the first exception ends the
  run of the tab.  The tab never looks at the period column itself.  The result is
  \<open>None\<close> when nothing was drawn, and the box plot with the heat map otherwise.  The
  headings, the figure set-up and the styling are presentation and are left out.
\<close>

record ('box, 'mat, 'heat) stats_lib =
  boxplot :: "string \<Rightarrow> string \<Rightarrow> dataframe \<Rightarrow> error + 'box"
  posthoc_mannwhitney :: "dataframe \<Rightarrow> string \<Rightarrow> string \<Rightarrow> string \<Rightarrow> error + 'mat"
  sign_plot :: "'mat \<Rightarrow> error + 'heat"

definition tab6 ::
  "('box, 'mat, 'heat) stats_lib \<Rightarrow> dataframe \<Rightarrow> string option \<Rightarrow> error + ('box \<times> 'heat) option" where
  "tab6 lib df prop_quimica =
     (case prop_quimica of
        None \<Rightarrow> Inr None
      | Some p \<Rightarrow>
          if p = [] then Inr None
          else
            case boxplot lib ''periodo'' p df of Inl e \<Rightarrow> Inl e | Inr box \<Rightarrow>
            case posthoc_mannwhitney lib df p ''periodo'' ''holm'' of Inl e \<Rightarrow> Inl e | Inr pc \<Rightarrow>
            case sign_plot lib pc of Inl e \<Rightarrow> Inl e | Inr heat \<Rightarrow>
              Inr (Some (box, heat)))"

text \<open>The distinct period labels of a data frame.\<close>

definition periods :: "dataframe \<Rightarrow> string list" where
  "periods df = remdups (map periodo (rows df))"

text \<open>
  Modelled from the spec: the pairwise comparison, \<^verbatim>\<open>posthoc_mannwhitney\<close> of the
  statistics library, is called at line 256 and is not part of the source.  By the spec
  it runs one two-sample test for every unordered pair of the periods present in the
  data, corrects the collected p-values together, and reports them in a square matrix
  indexed by the period labels.  The test and the correction are numeric routines of the
  library and stay parameters, \<open>test\<close> and \<open>adjust\<close>, as does the entry \<open>diag\<close> of the
  diagonal, which the spec leaves undefined.  An undefined p-value is \<open>None\<close>.
\<close>

definition group_values :: "dataframe \<Rightarrow> string \<Rightarrow> string \<Rightarrow> real list" where
  "group_values df val_col p =
     map (\<lambda>r. numeric r val_col) (filter (\<lambda>r. periodo r = p) (rows df))"

text \<open>
  Modelled from the spec: the unordered pairs of a list, each once, the earlier element
  first.
\<close>

fun unordered_pairs :: "'a list \<Rightarrow> ('a \<times> 'a) list" where
  "unordered_pairs [] = []"
| "unordered_pairs (x # xs) = map (Pair x) xs @ unordered_pairs xs"

text \<open>
  Modelled from the spec: the corrected p-value of every unordered pair of periods.
\<close>

definition adjusted_pairs ::
  "(real list \<Rightarrow> real list \<Rightarrow> real option) \<Rightarrow> (real option list \<Rightarrow> real option list) \<Rightarrow>
   dataframe \<Rightarrow> string \<Rightarrow> ((string \<times> string) \<times> real option) list" where
  "adjusted_pairs test adjust df val_col =
     (let prs = unordered_pairs (periods df);
          raw = map (\<lambda>(a, b). test (group_values df val_col a) (group_values df val_col b)) prs
      in zip prs (adjust raw))"

text \<open>
  Modelled from the spec: the entry of the matrix at the labels \<open>a\<close> and \<open>b\<close>, the
  corrected p-value of the pair that the two labels form.
\<close>

definition posthoc_matrix ::
  "(real list \<Rightarrow> real list \<Rightarrow> real option) \<Rightarrow> (real option list \<Rightarrow> real option list) \<Rightarrow>
   real option \<Rightarrow> dataframe \<Rightarrow> string \<Rightarrow> string \<Rightarrow> string \<Rightarrow> real option" where
  "posthoc_matrix test adjust diag df val_col a b =
     (if a = b then diag
      else case map_of (adjusted_pairs test adjust df val_col) (a, b) of
             Some p \<Rightarrow> p
           | None \<Rightarrow>
               (case map_of (adjusted_pairs test adjust df val_col) (b, a) of
                  Some p \<Rightarrow> p
                | None \<Rightarrow> None))"


text \<open>
  A stand-in for the plotting and statistics libraries.  With fewer than two groups the
  comparison runs no test, and the adjustment of no p-value divides by their number: the
  call fails with \<^verbatim>\<open>ZeroDivisionError\<close>.  Otherwise the matrix stands for the pairs of
  periods that it compares.  The box plot stands for its two axes and the heat map for
  the matrix it draws.
\<close>

definition statslib_standin ::
  "(string \<times> string, (string \<times> string) list, (string \<times> string) list) stats_lib" where
  "statslib_standin =
     \<lparr> boxplot = (\<lambda>x y df. Inr (x, y)),
       posthoc_mannwhitney =
         (\<lambda>df val_col group_col adj.
            if length (periods df) < 2 then Inl ZeroDivisionError
            else Inr (unordered_pairs (periods df))),
       sign_plot = (\<lambda>pc. Inr pc) \<rparr>"


section \<open>A small dataset\<close>

text \<open>
  Four oral drugs of one period, with molecular weights 200, 300, 400 and 500; the
  structure of the last one does not parse.
\<close>

definition drug_of :: "string \<Rightarrow> string \<Rightarrow> real \<Rightarrow> drug" where
  "drug_of name smiles mw =
     \<lparr> farmaco = name, canonical_smiles = smiles, classe_farmacologica = ''analgesic'',
       via_administracao = ''oral'', periodo = ''1981-2000'', numeric = (\<lambda>c. mw) \<rparr>"

definition df_four :: dataframe where
  "df_four =
     \<lparr> numeric_columns = [''massa_molecular''],
       rows = [drug_of ''a'' ''CCO'' 200, drug_of ''b'' ''CCO'' 300,
               drug_of ''c'' ''CCO'' 400, drug_of ''d'' ''C('' 500] \<rparr>"

text \<open>Two drugs of two periods, with molecular weights 200 and 400.\<close>

definition df_two :: dataframe where
  "df_two =
     \<lparr> numeric_columns = [''massa_molecular''],
       rows = [drug_of ''a'' ''CCO'' 200,
               (drug_of ''b'' ''CCO'' 400)\<lparr>periodo := ''2001-2020''\<rparr>] \<rparr>"




section \<open>Properties of the normalisation\<close>


subsection \<open>What the comprehension returns\<close>

text \<open>
  The comprehension succeeds exactly when no paired bound is degenerate, and then it
  holds the linear rescaling of each paired value; it fails only by the division.
\<close>

lemma normalized_values_Inr_iff:
  "normalized_values vs los his = Inr ns \<longleftrightarrow>
     length ns = paired vs los his \<and>
     (\<forall>i < paired vs los his. his ! i \<noteq> los ! i \<and> ns ! i = (vs ! i - los ! i) / (his ! i - los ! i))"
proof (induction vs los his arbitrary: ns rule: normalized_values.induct)
  case (1 v vs lo los hi his)
  show ?case
  proof (cases ns)
    case Nil
    then show ?thesis
      by (auto simp: paired_def normalize1_def split: sum.splits)
  next
    case (Cons n ns')
    have step: "normalize1 v lo hi = Inr x \<Longrightarrow>
        normalized_values vs los his = Inr ns' \<longleftrightarrow>
          length ns' = paired vs los his \<and>
          (\<forall>i < paired vs los his. his ! i \<noteq> los ! i \<and> ns' ! i = (vs ! i - los ! i) / (his ! i - los ! i))" for x
      using "1.IH" by blast
    show ?thesis
    proof (cases "hi = lo")
      case True
      then show ?thesis
        by (auto simp: paired_def normalize1_def Cons)
    next
      case False
      then have n1: "normalize1 v lo hi = Inr ((v - lo) / (hi - lo))"
        by (simp add: normalize1_def)
      have "normalized_values (v # vs) (lo # los) (hi # his) = Inr (n # ns') \<longleftrightarrow>
              n = (v - lo) / (hi - lo) \<and> normalized_values vs los his = Inr ns'"
        using n1 by (auto split: sum.splits)
      also have "\<dots> \<longleftrightarrow> n = (v - lo) / (hi - lo) \<and> length ns' = paired vs los his \<and>
          (\<forall>i < paired vs los his. his ! i \<noteq> los ! i \<and> ns' ! i = (vs ! i - los ! i) / (his ! i - los ! i))"
        using step [OF n1] by simp
      also have "\<dots> \<longleftrightarrow> length (n # ns') = paired (v # vs) (lo # los) (hi # his) \<and>
          (\<forall>i < paired (v # vs) (lo # los) (hi # his). (hi # his) ! i \<noteq> (lo # los) ! i \<and>
              (n # ns') ! i = ((v # vs) ! i - (lo # los) ! i) / ((hi # his) ! i - (lo # los) ! i))"
        using False by (auto simp: paired_def All_less_Suc2 nth_Cons')
      finally show ?thesis using Cons by simp
    qed
  qed
qed (auto simp: paired_def)


lemma normalized_values_error:
  "normalized_values vs los his = Inl e \<Longrightarrow> e = ZeroDivisionError"
  by (induction vs los his rule: normalized_values.induct)
     (auto simp: normalize1_def split: sum.splits if_splits)

lemma normalized_values_Inl_iff:
  "normalized_values vs los his = Inl e \<longleftrightarrow>
     e = ZeroDivisionError \<and> (\<exists>i < paired vs los his. his ! i = los ! i)"
proof (cases "normalized_values vs los his")
  case (Inl e')
  have "\<not> (\<forall>i < paired vs los his. his ! i \<noteq> los ! i)"
  proof
    assume ok: "\<forall>i < paired vs los his. his ! i \<noteq> los ! i"
    define ns where "ns = map (\<lambda>i. (vs ! i - los ! i) / (his ! i - los ! i)) [0..<paired vs los his]"
    have "normalized_values vs los his = Inr ns"
      unfolding normalized_values_Inr_iff using ok by (simp add: ns_def)
    with Inl show False by simp
  qed
  with Inl normalized_values_error [OF Inl] show ?thesis by auto
next
  case (Inr ns)
  then show ?thesis
    using normalized_values_Inr_iff [of vs los his ns] by auto
qed

lemma create_radar_division:
  "normalized_values (map snd props) los his = Inl e \<Longrightarrow>
     create_radar_plot_with_threshold props los his = Inl e"
  by (simp add: create_radar_plot_with_threshold_def)

lemma length_close_loop: "length (close_loop xs) = length xs + min 1 (length xs)"
  by (simp add: close_loop_def)

subsection \<open>The claims about the radar plot\<close>

text \<open>
  C1.  For \<open>k\<close> descriptor values with parallel bounds such that \<open>min_i < max_i\<close> for
  every \<open>i\<close>, the normalisation returns \<open>k\<close> values with
  \<open>normalized_i = (value_i - min_i) / (max_i - min_i)\<close>, not clamped: \<open>normalized_i\<close> is
  0 exactly when \<open>value_i = min_i\<close>, it is 1 exactly when \<open>value_i = max_i\<close>, it is below
  0 exactly when the value is below the minimum and above 1 exactly when the value is
  above the maximum.
\<close>

theorem normalize_linear_unclamped:
  assumes "length vs = k" and "length los = k" and "length his = k"
    and "\<forall>i<k. los ! i < his ! i"
  shows "\<exists>ns. normalized_values vs los his = Inr ns \<and> length ns = k \<and>
           (\<forall>i<k. ns ! i = (vs ! i - los ! i) / (his ! i - los ! i) \<and>
                  (ns ! i = 0 \<longleftrightarrow> vs ! i = los ! i) \<and>
                  (ns ! i = 1 \<longleftrightarrow> vs ! i = his ! i) \<and>
                  (ns ! i < 0 \<longleftrightarrow> vs ! i < los ! i) \<and>
                  (1 < ns ! i \<longleftrightarrow> his ! i < vs ! i))"
proof -
  define ns where "ns = map (\<lambda>i. (vs ! i - los ! i) / (his ! i - los ! i)) [0..<k]"
  have k: "paired vs los his = k"
    using assms by (simp add: paired_def)
  have run: "normalized_values vs los his = Inr ns"
    unfolding normalized_values_Inr_iff k using assms(4) by (auto simp: ns_def)
  have "ns ! i = (vs ! i - los ! i) / (his ! i - los ! i) \<and>
        (ns ! i = 0 \<longleftrightarrow> vs ! i = los ! i) \<and>
        (ns ! i = 1 \<longleftrightarrow> vs ! i = his ! i) \<and>
        (ns ! i < 0 \<longleftrightarrow> vs ! i < los ! i) \<and>
        (1 < ns ! i \<longleftrightarrow> his ! i < vs ! i)" if "i < k" for i
  proof -
    have pos: "0 < his ! i - los ! i" using assms(4) that by simp
    have eq: "ns ! i = (vs ! i - los ! i) / (his ! i - los ! i)"
      using that by (simp add: ns_def)
    show ?thesis
      unfolding eq using pos
      by (auto simp: divide_less_0_iff less_divide_eq)
  qed
  with run show ?thesis by (auto simp: ns_def)
qed

theorem normalize_linear_unclamped_witness:
  "length [7, 100, 0 :: real] = 3 \<and> list_all2 (<) [0, 100, 0 :: real] [5, 500, 1] \<and>
   normalized_values [7, 100, 0] [0, 100, 0] [5, 500, 1] = Inr [7 / 5, 0, 0]"
proof -
  have h: "\<forall>i<3. [0, 100, 0 :: real] ! i < [5, 500, 1] ! i"
    by (simp add: All_less_Suc2 numeral_3_eq_3)
  show ?thesis
    using normalize_linear_unclamped [of "[7, 100, 0]" 3 "[0, 100, 0]" "[5, 500, 1]", OF _ _ _ h]
    by (simp add: normalize1_def)
qed

text \<open>
  C2, as stated, fails: the claim is that the function rejects every input whose three
  lengths are not one common \<open>K \<ge> 3\<close> with \<^verbatim>\<open>InvalidInputError\<close>.  With two descriptors and
  two bounds each the function returns a plot whose polygon has the two normalised values
  and the closing repeat of the first.
\<close>

theorem radar_two_descriptors_accepted:
  "create_radar_plot_with_threshold [(''HBD'', 1), (''MW'', 300)] [0, 100] [5, 500]
     \<noteq> Inl (Raised ''InvalidInputError'') \<and>
   map_sum id polygon
     (create_radar_plot_with_threshold [(''HBD'', 1), (''MW'', 300)] [0, 100] [5, 500])
     = Inr [1 / 5, 1 / 2, 1 / 5]"
  by (simp add: create_radar_plot_with_threshold_def Let_def normalize1_def close_loop_def
      linspace_open_def)

text \<open>
  C2, amended.  The function validates no length and never fails with
  \<^verbatim>\<open>InvalidInputError\<close>.  Values and bounds are paired by position up to the shortest of
  the three lists.  Provided that no paired bound has \<open>max_i = min_i\<close>: for \<open>K \<ge> 1\<close>
  descriptors, fewer than three included, with at least \<open>K\<close> bounds of each kind, the
  function returns a plot whose polygon is the closed list of the \<open>K\<close> normalised values,
  the bounds beyond the \<open>K\<close>th being ignored; with fewer bounds than descriptors the
  first plotting call fails with the plotting library's \<^verbatim>\<open>ValueError\<close>.
\<close>

theorem radar_no_length_validation:
  assumes "\<forall>i < paired (map snd props) los his. his ! i \<noteq> los ! i" and "props \<noteq> []"
  shows "(length props \<le> length los \<and> length props \<le> length his \<longrightarrow>
           (\<exists>fig ns. create_radar_plot_with_threshold props los his = Inr fig \<and>
              normalized_values (map snd props) los his = Inr ns \<and>
              length ns = length props \<and>
              polygon fig = close_loop ns \<and>
              length (angles fig) = length props + 1 \<and>
              length (threshold_values fig) = length props + 1)) \<and>
         (length los < length props \<or> length his < length props \<longrightarrow>
            create_radar_plot_with_threshold props los his = Inl (Raised ''ValueError''))"
proof -
  define ns where
    "ns = map (\<lambda>i. (map snd props ! i - los ! i) / (his ! i - los ! i))
            [0..<paired (map snd props) los his]"
  have run: "normalized_values (map snd props) los his = Inr ns"
    unfolding normalized_values_Inr_iff using assms(1) by (simp add: ns_def)
  have len: "length ns = paired (map snd props) los his"
    by (simp add: ns_def)
  have k1: "min 1 (length props) = 1" "min (length props) 1 = 1"
    using assms(2) by (cases props; simp)+
  show ?thesis
  proof (intro conjI impI)
    assume "length props \<le> length los \<and> length props \<le> length his"
    then have "paired (map snd props) los his = length props"
      by (simp add: paired_def)
    with run len k1 show "\<exists>fig ns. create_radar_plot_with_threshold props los his = Inr fig \<and>
              normalized_values (map snd props) los his = Inr ns \<and>
              length ns = length props \<and>
              polygon fig = close_loop ns \<and>
              length (angles fig) = length props + 1 \<and>
              length (threshold_values fig) = length props + 1"
      by (simp add: create_radar_plot_with_threshold_def Let_def length_close_loop
          linspace_open_def)
  next
    assume "length los < length props \<or> length his < length props"
    then have "paired (map snd props) los his < length props"
      by (auto simp: paired_def)
    with run len k1 show "create_radar_plot_with_threshold props los his = Inl (Raised ''ValueError'')"
      by (simp add: create_radar_plot_with_threshold_def Let_def length_close_loop
          linspace_open_def)
  qed
qed

theorem radar_no_length_validation_witness:
  "[5 :: real, 500, 1] ! 0 \<noteq> [0, 100, 0] ! 0 \<and> [5 :: real, 500, 1] ! 1 \<noteq> [0, 100, 0] ! 1 \<and>
   (\<exists>fig. create_radar_plot_with_threshold [(''HBD'', 1), (''MW'', 300)] [0, 100, 0] [5, 500, 1]
        = Inr fig \<and> polygon fig = [1 / 5, 1 / 2, 1 / 5] \<and> length (angles fig) = 3) \<and>
   create_radar_plot_with_threshold [(''HBD'', 1), (''MW'', 300)] [0] [5, 500, 1]
     = Inl (Raised ''ValueError'')"
proof -
  have h: "\<forall>i < paired (map snd [(''HBD'', 1 :: real), (''MW'', 300)]) [0 :: real, 100, 0] [5 :: real, 500, 1].
       [5 :: real, 500, 1] ! i \<noteq> [0, 100, 0] ! i"
    by (simp add: paired_def All_less_Suc2 numeral_2_eq_2)
  have h': "\<forall>i < paired (map snd [(''HBD'', 1 :: real), (''MW'', 300)]) [0 :: real] [5 :: real, 500, 1].
       [5 :: real, 500, 1] ! i \<noteq> [0] ! i"
    by (simp add: paired_def)
  have ne: "[(''HBD'', 1 :: real), (''MW'', 300)] \<noteq> []"
    by simp
  have ns: "normalized_values (map snd [(''HBD'', 1 :: real), (''MW'', 300)]) [0, 100, 0] [5, 500, 1]
      = Inr [1 / 5, 1 / 2]"
    by (simp add: normalize1_def)
  show ?thesis
    using radar_no_length_validation [OF h ne] radar_no_length_validation [OF h' ne]
    unfolding ns by (auto simp: close_loop_def)
qed

text \<open>
  C3, as stated, fails: the claim is that a bound with \<open>max_i = min_i\<close> makes the
  function fail with the named error \<^verbatim>\<open>DegenerateRangeError\<close>.  The exception that
  leaves the function is the \<^verbatim>\<open>ZeroDivisionError\<close> of the interpreter.
\<close>

theorem radar_degenerate_range_is_zero_division:
  "create_radar_plot_with_threshold [(''HBD'', 2), (''MW'', 300), (''QED'', 0.8)]
       [0, 100, 0] [5, 100, 1] = Inl ZeroDivisionError \<and>
   create_radar_plot_with_threshold [(''HBD'', 2), (''MW'', 300), (''QED'', 0.8)]
       [0, 100, 0] [5, 100, 1] \<noteq> Inl (Raised ''DegenerateRangeError'')"
  by (simp add: create_radar_plot_with_threshold_def Let_def normalize1_def)

text \<open>
  C3, amended.  Whenever some paired position \<open>i\<close> has \<open>max_i = min_i\<close>, the function
  fails with Python's \<^verbatim>\<open>ZeroDivisionError\<close>, raised by the division of line 53, and with
  nothing else.
\<close>

theorem radar_degenerate_range:
  assumes "i < paired (map snd props) los his" and "his ! i = los ! i"
  shows "create_radar_plot_with_threshold props los his = Inl ZeroDivisionError"
proof -
  have "normalized_values (map snd props) los his = Inl ZeroDivisionError"
    unfolding normalized_values_Inl_iff using assms by blast
  then show ?thesis by (rule create_radar_division)
qed

theorem radar_degenerate_range_witness:
  "(1 :: nat) < paired (map snd [(''HBD'', 2 :: real), (''MW'', 300), (''QED'', 0.8)]) [0 :: real, 100, 0] [5 :: real, 100, 1] \<and>
   [5 :: real, 100, 1] ! 1 = [0 :: real, 100, 0] ! 1 \<and>
   create_radar_plot_with_threshold [(''HBD'', 2), (''MW'', 300), (''QED'', 0.8)]
       [0, 100, 0] [5, 100, 1] = Inl ZeroDivisionError"
proof -
  have h1: "(1 :: nat) < paired (map snd [(''HBD'', 2 :: real), (''MW'', 300), (''QED'', 0.8)]) [0 :: real, 100, 0] [5 :: real, 100, 1]"
    by (simp add: paired_def)
  have h2: "[5 :: real, 100, 1] ! 1 = [0 :: real, 100, 0] ! 1"
    by simp
  show ?thesis
    using h1 h2 radar_degenerate_range [OF h1 h2] by simp
qed

text \<open>
  C4.  The descriptor values HBD 2, MW 300, QED 0.8, LogP 3, HBA 4, taken in the order
  of the dictionary, with the bounds of the application, minimum [0, 100, 0, 0, 0] and
  maximum [5, 500, 1, 5, 10], are normalised to exactly [0.4, 0.5, 0.8, 0.6, 0.4].
\<close>

theorem normalized_values_example:
  "normalized_values [2, 300, 0.8, 3, 4] min_values max_values
     = Inr [0.4, 0.5, 0.8, 0.6, 0.4]"
  by (simp add: min_values_def max_values_def normalize1_def)

section \<open>Properties of the descriptor functions\<close>

text \<open>
  C10.  For a structure encoding that parses to a molecule on which the five descriptor
  calls return, \<^verbatim>\<open>calculate_lipinski_properties\<close> returns the dictionary with exactly the
  five keys HBD, MW, QED, LogP, HBA, in this order, each with the value of its descriptor;
  the order matches, position by position, the bounds [0, 100, 0, 0, 0] and
  [5, 500, 1, 5, 10] of the radar tab.  The rule-of-five boolean is not in the result.
\<close>

theorem lipinski_properties_keys:
  assumes "MolFromSmiles lib smiles = Inr (Some m)"
    and "MolWt lib (Some m) = Inr mw"
    and "NumHDonors lib (Some m) = Inr hbd"
    and "NumHAcceptors lib (Some m) = Inr hba"
    and "MolLogP lib (Some m) = Inr logp"
    and "QED_qed lib (Some m) = Inr q"
  shows "\<exists>d. calculate_lipinski_properties lib smiles = Inr d \<and>
           d = [(''HBD'', hbd), (''MW'', mw), (''QED'', q), (''LogP'', logp), (''HBA'', hba)] \<and>
           map fst d = [''HBD'', ''MW'', ''QED'', ''LogP'', ''HBA''] \<and>
           zip (map fst d) (zip min_values max_values) =
             [(''HBD'', 0, 5), (''MW'', 100, 500), (''QED'', 0, 1), (''LogP'', 0, 5), (''HBA'', 0, 10)]"
  using assms
  by (simp add: calculate_lipinski_properties_def min_values_def max_values_def)

theorem lipinski_properties_keys_witness:
  "MolFromSmiles rdkit_standin ''CCO'' = Inr (Some ''CCO'') \<and>
   calculate_lipinski_properties rdkit_standin ''CCO''
     = Inr [(''HBD'', 2), (''MW'', 300), (''QED'', 0.8), (''LogP'', 3), (''HBA'', 4)]"
proof -
  have p: "MolFromSmiles rdkit_standin ''CCO'' = Inr (Some ''CCO'')"
    and d: "MolWt rdkit_standin (Some ''CCO'') = Inr 300"
      "NumHDonors rdkit_standin (Some ''CCO'') = Inr 2"
      "NumHAcceptors rdkit_standin (Some ''CCO'') = Inr 4"
      "MolLogP rdkit_standin (Some ''CCO'') = Inr 3"
      "QED_qed rdkit_standin (Some ''CCO'') = Inr 0.8"
    by (simp_all add: rdkit_standin_def)
  show ?thesis
    using p lipinski_properties_keys [OF p d] by simp
qed

text \<open>
  C8, as stated, fails: the claim is that an unparseable structure encoding makes the
  descriptor computation and the depiction fail with \<^verbatim>\<open>InvalidStructureError\<close>.  With a
  library that returns \<^verbatim>\<open>None\<close> for the string and rejects \<^verbatim>\<open>None\<close> in its other functions,
  the exceptions that leave the two functions are the library's own.
\<close>

theorem malformed_structure_library_error:
  "calculate_lipinski_properties rdkit_standin ''C('' = Inl (Raised ''ArgumentError'') \<and>
   calculate_lipinski_properties rdkit_standin ''C('' \<noteq> Inl (Raised ''InvalidStructureError'') \<and>
   chemical_struture_2d rdkit_standin ''C('' = Inl (Raised ''ValueError'') \<and>
   chemical_struture_2d rdkit_standin ''C('' \<noteq> Inl (Raised ''InvalidStructureError'')"
  by (simp add: calculate_lipinski_properties_def chemical_struture_2d_def rdkit_standin_def)

text \<open>
  C8, amended.  For a structure encoding that the parser answers with \<^verbatim>\<open>None\<close>, the script
  checks nothing and catches nothing: \<^verbatim>\<open>calculate_lipinski_properties\<close> fails with whatever
  exception the molecular-weight call raises on \<^verbatim>\<open>None\<close>, \<^verbatim>\<open>chemical_struture_2d\<close> fails with
  whatever exception the depiction call raises on \<^verbatim>\<open>None\<close>, and the radar tab for a drug
  with that encoding ends with the exception of the depiction.
\<close>

theorem malformed_structure_propagates:
  assumes "MolFromSmiles lib smiles = Inr None"
    and "MolWt lib None = Inl e1"
    and "MolToImage lib None = Inl e2"
    and "iloc0 (map canonical_smiles (rows (where_eq farmaco sel df))) = Inr smiles"
  shows "calculate_lipinski_properties lib smiles = Inl e1 \<and>
         chemical_struture_2d lib smiles = Inl e2 \<and>
         tab4 lib SUB df sel = Inl e2"
proof -
  have c: "chemical_struture_2d lib smiles = Inl e2"
    using assms(1,3) by (simp add: chemical_struture_2d_def)
  have "rows (where_eq farmaco sel df) \<noteq> []"
    using assms(4) by (auto simp: iloc0_def)
  then obtain k where "iloc0 (map classe_farmacologica (rows (where_eq farmaco sel df))) = Inr k"
    by (cases "rows (where_eq farmaco sel df)") (auto simp: iloc0_def)
  then have "tab4 lib SUB df sel = Inl e2"
    using assms(4) c by (simp add: tab4_def Let_def)
  moreover have "calculate_lipinski_properties lib smiles = Inl e1"
    using assms(1,2) by (simp add: calculate_lipinski_properties_def)
  ultimately show ?thesis using c by simp
qed

theorem malformed_structure_propagates_witness:
  "MolFromSmiles rdkit_standin ''C('' = Inr None \<and>
   tab4 rdkit_standin id df_four ''d'' = Inl (Raised ''ValueError'') \<and>
   calculate_lipinski_properties rdkit_standin ''C('' = Inl (Raised ''ArgumentError'')"
proof -
  have p: "MolFromSmiles rdkit_standin ''C('' = Inr None"
    and w: "MolWt rdkit_standin None = Inl (Raised ''ArgumentError'')"
    and i: "MolToImage rdkit_standin None = Inl (Raised ''ValueError'')"
    by (simp_all add: rdkit_standin_def)
  have r: "iloc0 (map canonical_smiles (rows (where_eq farmaco ''d'' df_four))) = Inr ''C(''"
    by (simp add: df_four_def drug_of_def where_eq_def iloc0_def)
  show ?thesis
    using p malformed_structure_propagates [OF p w i r, of id] by simp
qed


section \<open>Properties of the statistics tab\<close>

lemma describe_1d_empty:
  "describe_1d [] [0.25, 0.5, 0.75, 0.9] =
     [(Name ''count'', Some 0), (Name ''mean'', None), (Name ''std'', None), (Name ''min'', None),
      (Pct 0.25, None), (Pct 0.5, None), (Pct 0.75, None), (Pct 0.9, None), (Name ''max'', None)]"
  by (simp add: describe_1d_def series_mean_def series_std_def series_min_def series_max_def
      series_quantile_def)

lemma rename_labels:
  "rename_label [(''count'', ''contagem''), (''mean'', media), (''std'', ''dp'')] (Name ''count'') = Name ''contagem''"
  "rename_label [(''count'', ''contagem''), (''mean'', media), (''std'', ''dp'')] (Name ''mean'') = Name media"
  "rename_label [(''count'', ''contagem''), (''mean'', media), (''std'', ''dp'')] (Name ''std'') = Name ''dp''"
  "rename_label [(''count'', ''contagem''), (''mean'', media), (''std'', ''dp'')] (Name ''min'') = Name ''min''"
  "rename_label [(''count'', ''contagem''), (''mean'', media), (''std'', ''dp'')] (Name ''max'') = Name ''max''"
  "rename_label [(''count'', ''contagem''), (''mean'', media), (''std'', ''dp'')] (Pct q) = Pct q"
  by (simp_all add: rename_label_def)

lemma renamed_describe_frame:
  "rename_index [(''count'', ''contagem''), (''mean'', media), (''std'', ''dp'')]
     (describe_frame d [0.25, 0.5, 0.75, 0.9])
   = map (\<lambda>c. (c, stats_of (map (\<lambda>r. numeric r c) (rows d)))) (numeric_columns d)"
  by (simp add: rename_index_def describe_frame_def describe_1d_def rename_labels stats_of_def)

lemma where_eq_columns: "numeric_columns (where_eq col x df) = numeric_columns df"
  by (simp add: where_eq_def)

lemma df_estatistico_selected:
  assumes "via_admin \<in> set [''Todas'', ''Oral'', ''Parenteral'', Topica]"
  shows "df_estatistico df via_admin =
     Inr (map (\<lambda>c. (c, stats_of (map (\<lambda>r. numeric r c) (selected_rows df via_admin))))
            (numeric_columns df))"
proof -
  have t: "Topica \<noteq> ''Todas''" "Topica \<noteq> ''Oral''" "Topica \<noteq> ''Parenteral''"
    by (simp_all add: Topica_def)
  from assms consider "via_admin = ''Todas''" | "via_admin = ''Oral''"
    | "via_admin = ''Parenteral''" | "via_admin = Topica"
    by auto
  then show ?thesis
  proof cases
    case 1
    then show ?thesis
      unfolding df_estatistico_def selected_rows_def Let_def renamed_describe_frame by (simp add: where_eq_columns)
  next
    case 2
    then show ?thesis
      unfolding df_estatistico_def selected_rows_def Let_def renamed_describe_frame by (simp add: where_eq_columns)
  next
    case 3
    then show ?thesis
      unfolding df_estatistico_def selected_rows_def Let_def renamed_describe_frame by (simp add: where_eq_columns)
  next
    case 4
    then show ?thesis
      unfolding df_estatistico_def selected_rows_def Let_def renamed_describe_frame
      using t by (simp add: where_eq_columns)
  qed
qed










text \<open>
  C5.  When the selected route leaves no record, the statistics step raises nothing and
  returns the table of an empty selection: for every numeric column the count is 0 and
  every other statistic is undefined.
\<close>

theorem empty_filter_statistics:
  assumes "via_admin \<in> set [''Todas'', ''Oral'', ''Parenteral'', Topica]"
    and "selected_rows df via_admin = []"
  shows "df_estatistico df via_admin =
     Inr (map (\<lambda>c. (c,
            [(Name ''contagem'', Some 0), (Name media, None), (Name ''dp'', None),
             (Name ''min'', None), (Pct 0.25, None), (Pct 0.5, None), (Pct 0.75, None),
             (Pct 0.9, None), (Name ''max'', None)]))
          (numeric_columns df))"
  using df_estatistico_selected [OF assms(1), of df] assms(2)
  by (simp add: stats_of_def series_mean_def series_std_def series_min_def series_max_def
      series_quantile_def)

theorem empty_filter_statistics_witness:
  "selected_rows df_four Topica = [] \<and>
   df_estatistico df_four Topica =
     Inr [(''massa_molecular'',
           [(Name ''contagem'', Some 0), (Name media, None), (Name ''dp'', None),
            (Name ''min'', None), (Pct 0.25, None), (Pct 0.5, None), (Pct 0.75, None),
            (Pct 0.9, None), (Name ''max'', None)])]"
proof -
  have v: "Topica \<in> set [''Todas'', ''Oral'', ''Parenteral'', Topica]"
    by simp
  have e: "selected_rows df_four Topica = []"
    by (simp add: selected_rows_def Topica_def where_eq_def df_four_def drug_of_def)
  have n: "numeric_columns df_four = [''massa_molecular'']"
    by (simp add: df_four_def)
  show ?thesis
    using e empty_filter_statistics [OF v e] unfolding n by simp
qed


section \<open>Properties of the period tab\<close>

text \<open>
  C7, as stated, fails: the claim is that with fewer than two distinct periods the
  pairwise comparison is skipped and only descriptive statistics are returned.  On the
  small dataset, which has one period, the tab with a descriptor selected ends with the
  exception of the comparison, which it has therefore called.
\<close>

theorem single_period_runs_comparison:
  "periods df_four = [''1981-2000''] \<and>
   tab6 statslib_standin df_four (Some ''massa_molecular'') = Inl ZeroDivisionError"
  by (simp add: periods_def tab6_def statslib_standin_def df_four_def drug_of_def)

text \<open>
  C7, amended.  The period tab never inspects the number of distinct periods.  Whenever
  a descriptor is selected and the box plot is drawn, it calls the pairwise comparison
  on the whole data frame, with the descriptor as the value column, the period as the
  grouping column and Holm's adjustment, and the outcome of the tab is the outcome of
  that call: an exception that the call raises leaves the tab, and a matrix that it
  returns is handed to the heat map.  While no descriptor is selected the tab computes
  nothing.  The tab computes no descriptive statistics.
\<close>

theorem comparison_runs_when_selected:
  assumes "p \<noteq> []" and "boxplot lib ''periodo'' p df = Inr box"
  shows "(posthoc_mannwhitney lib df p ''periodo'' ''holm'' = Inl e \<longrightarrow>
            tab6 lib df (Some p) = Inl e) \<and>
         (posthoc_mannwhitney lib df p ''periodo'' ''holm'' = Inr pc \<longrightarrow>
            tab6 lib df (Some p) =
              (case sign_plot lib pc of Inl e' \<Rightarrow> Inl e' | Inr heat \<Rightarrow> Inr (Some (box, heat)))) \<and>
         tab6 lib df None = Inr None \<and> tab6 lib df (Some []) = Inr None"
  using assms by (simp add: tab6_def)

theorem comparison_runs_when_selected_witness:
  "boxplot statslib_standin ''periodo'' ''massa_molecular'' df_two
     = Inr (''periodo'', ''massa_molecular'') \<and>
   posthoc_mannwhitney statslib_standin df_two ''massa_molecular'' ''periodo'' ''holm''
     = Inr [(''1981-2000'', ''2001-2020'')] \<and>
   tab6 statslib_standin df_two (Some ''massa_molecular'')
     = Inr (Some ((''periodo'', ''massa_molecular''), [(''1981-2000'', ''2001-2020'')]))"
proof -
  have n: "''massa_molecular'' \<noteq> []"
    by simp
  have b: "boxplot statslib_standin ''periodo'' ''massa_molecular'' df_two
      = Inr (''periodo'', ''massa_molecular'')"
    by (simp add: statslib_standin_def)
  have c: "posthoc_mannwhitney statslib_standin df_two ''massa_molecular'' ''periodo'' ''holm''
      = Inr [(''1981-2000'', ''2001-2020'')]"
    by (simp add: statslib_standin_def periods_def df_two_def drug_of_def)
  have s: "sign_plot statslib_standin [(''1981-2000'', ''2001-2020'')]
      = Inr [(''1981-2000'', ''2001-2020'')]"
    by (simp add: statslib_standin_def)
  show ?thesis
    using b c comparison_runs_when_selected [OF n b, of ZeroDivisionError "[(''1981-2000'', ''2001-2020'')]"]
    by (simp add: s)
qed

text \<open>
  Each unordered pair of distinct period labels is listed in one order only, so an entry
  of the matrix does not depend on the order in which its two labels are given.
\<close>

lemma unordered_pairs_members:
  "(a, b) \<in> set (unordered_pairs xs) \<Longrightarrow> a \<in> set xs \<and> b \<in> set xs"
  by (induction xs) auto

lemma unordered_pairs_one_order:
  "distinct xs \<Longrightarrow> (a, b) \<in> set (unordered_pairs xs) \<Longrightarrow> (b, a) \<notin> set (unordered_pairs xs)"
proof (induction xs)
  case Nil
  then show ?case by simp
next
  case (Cons x xs)
  from Cons.prems(2) consider "a = x" "b \<in> set xs" | "(a, b) \<in> set (unordered_pairs xs)"
    by auto
  then show ?case
  proof cases
    case 1
    then have "b \<noteq> x" using Cons.prems(1) by auto
    moreover have "(b, a) \<notin> set (unordered_pairs xs)"
      using 1 Cons.prems(1) unordered_pairs_members [of b a xs] by auto
    ultimately show ?thesis by auto
  next
    case 2
    then have "a \<in> set xs" "b \<in> set xs"
      using unordered_pairs_members by fastforce+
    then have "b \<noteq> x" using Cons.prems(1) by auto
    moreover have "(b, a) \<notin> set (unordered_pairs xs)"
      using Cons.IH 2 Cons.prems(1) by simp
    ultimately show ?thesis by auto
  qed
qed

lemma adjusted_pairs_keys:
  "map_of (adjusted_pairs test adjust df val_col) k = Some p \<Longrightarrow>
     k \<in> set (unordered_pairs (periods df))"
  by (auto simp: adjusted_pairs_def Let_def dest!: map_of_SomeD set_zip_leftD)

lemma adjusted_pairs_one_order:
  assumes "map_of (adjusted_pairs test adjust df val_col) (a, b) = Some p"
  shows "map_of (adjusted_pairs test adjust df val_col) (b, a) = None"
proof (cases "map_of (adjusted_pairs test adjust df val_col) (b, a)")
  case None
  then show ?thesis .
next
  case (Some q)
  have d: "distinct (periods df)" by (simp add: periods_def)
  have "(b, a) \<notin> set (unordered_pairs (periods df))"
    using unordered_pairs_one_order [OF d adjusted_pairs_keys [OF assms]] .
  with adjusted_pairs_keys [OF Some] show ?thesis by simp
qed

text \<open>
  C6.  The matrix of the pairwise comparison of the periods, one test for every unordered
  pair of periods and one joint correction of the p-values, is symmetric: the entry at
  the labels \<open>a\<close> and \<open>b\<close> is the entry at \<open>b\<close> and \<open>a\<close>, for every dataset, every
  descriptor and all labels.
\<close>

theorem posthoc_matrix_symmetric:
  "posthoc_matrix test adjust diag df val_col a b = posthoc_matrix test adjust diag df val_col b a"
proof (cases "a = b")
  case True
  then show ?thesis by simp
next
  case False
  show ?thesis
  proof (cases "map_of (adjusted_pairs test adjust df val_col) (a, b)")
    case None
    then show ?thesis
      using False by (auto simp: posthoc_matrix_def split: option.splits)
  next
    case (Some p)
    from adjusted_pairs_one_order [OF Some] Some False
    show ?thesis by (simp add: posthoc_matrix_def)
  qed
qed

theorem posthoc_matrix_symmetric_witness:
  "posthoc_matrix (\<lambda>xs ys. Some (sum_list xs / (sum_list xs + sum_list ys))) id None
     df_two ''massa_molecular'' ''2001-2020'' ''1981-2000'' = Some (1 / 3)"
proof -
  have "posthoc_matrix (\<lambda>xs ys. Some (sum_list xs / (sum_list xs + sum_list ys))) id None
     df_two ''massa_molecular'' ''1981-2000'' ''2001-2020'' = Some (1 / 3)"
    by (simp add: posthoc_matrix_def adjusted_pairs_def periods_def df_two_def drug_of_def
        group_values_def)
  then show ?thesis
    using posthoc_matrix_symmetric [of "\<lambda>xs ys. Some (sum_list xs / (sum_list xs + sum_list ys))"
        id None df_two "''massa_molecular''" "''2001-2020''" "''1981-2000''"]
    by simp
qed

end
